theory Spec2Isabelle
  imports Main "HOL-Library.Word"
begin

section \<open>Values that travel through the dispatcher\<close>

text \<open>
  The agent passes Go values of type \<open>interface{}\<close> through its work queue and decodes
  them at the far end. The model keeps the dynamic types the source uses: a time source,
  an event flag, a colour code, a string, an error, a request pointer, an integer, a
  duration, a byte slice, and a slice of such values (a \<open>[]interface{}\<close> stored in one
  \<open>interface{}\<close>), besides the nil interface.
\<close>

datatype gopanic = NilPointerDereference | IndexOutOfRange | NilMapAssignment

text \<open>An \<open>error\<close> value is kept as its message; a nil \<open>error\<close> is \<open>None\<close>.\<close>

datatype goerror = GoError string

text \<open>A reading of the clock, as \<open>TimeNow()\<close> returns it.\<close>

datatype TimeSource = TimeInstance nat

text \<open>
  The writer and the request are external objects: only their identity is kept. A
  \<open>*http.Request\<close> is a pointer and may be nil: it is a \<open>Request option\<close>.
\<close>

datatype Logger = LogWriter nat

datatype Request = HttpRequest nat

datatype AnsiColorCode = ColorWhite | ColorLightYellow | ColorRed | ColorGreen | ColorBlue

text \<open>
  Modelled from the spec: the declaration of the event kinds is not among the sources.
  The kinds the agent names are constants; consumers may define further kinds.
\<close>

datatype EventFlag =
    EventInfo | EventDebug | EventWarning | EventError | EventFatalError
  | EventWebRequest | EventRequest | EventRequestComplete | EventRequestBody
  | EventOther string

datatype iface =
    ANil
  | ATimeSource TimeSource
  | AEventFlag EventFlag
  | AColor AnsiColorCode
  | AString string
  | AnError goerror
  | ARequest "Request option"
  | AnInt int
  | ADuration int
  | ABytes "8 word list"
  | ASlice "iface list"

text \<open>Go checks every index: \<open>xs[i]\<close> panics when \<open>i\<close> is not below \<open>len(xs)\<close>.\<close>

definition index :: "'a list \<Rightarrow> nat \<Rightarrow> gopanic + 'a" where
  "index xs i = (if i < length xs then Inr (xs ! i) else Inl IndexOutOfRange)"

subsection \<open>Decoders\<close>

text \<open>
  Modelled from the spec: the \<open>stateAs...\<close> helpers are not among the sources. The spec
  says that decoding an untyped value to its expected type is explicit and fails
  gracefully, returning an error, on a type mismatch.
\<close>

definition stateAsTimeSource :: "iface \<Rightarrow> goerror + TimeSource" where
  "stateAsTimeSource v = (case v of ATimeSource ts \<Rightarrow> Inr ts | _ \<Rightarrow> Inl (GoError ''not a time source''))"

definition stateAsEventFlag :: "iface \<Rightarrow> goerror + EventFlag" where
  "stateAsEventFlag v = (case v of AEventFlag k \<Rightarrow> Inr k | _ \<Rightarrow> Inl (GoError ''not an event flag''))"

definition stateAsRequest :: "iface \<Rightarrow> goerror + Request option" where
  "stateAsRequest v = (case v of ARequest r \<Rightarrow> Inr r | _ \<Rightarrow> Inl (GoError ''not a request''))"

definition stateAsInteger :: "iface \<Rightarrow> goerror + int" where
  "stateAsInteger v = (case v of AnInt n \<Rightarrow> Inr n | _ \<Rightarrow> Inl (GoError ''not an integer''))"

definition stateAsDuration :: "iface \<Rightarrow> goerror + int" where
  "stateAsDuration v = (case v of ADuration d \<Rightarrow> Inr d | _ \<Rightarrow> Inl (GoError ''not a duration''))"

definition stateAsBytes :: "iface \<Rightarrow> goerror + 8 word list" where
  "stateAsBytes v = (case v of ABytes b \<Rightarrow> Inr b | _ \<Rightarrow> Inl (GoError ''not a byte slice''))"

section \<open>Listeners and typed adapters\<close>

text \<open>
  A listener is a Go function value. What it does is outside the agent: the model takes
  a listener as a function that returns the effects it performed, of some type \<open>'e\<close>, or
  the panic that ended it. An adapter that drops a call returns no effect.
\<close>

type_synonym 'e EventListener =
  "Logger \<Rightarrow> TimeSource \<Rightarrow> EventFlag \<Rightarrow> iface list \<Rightarrow> gopanic + 'e list"

type_synonym 'e ErrorListener = "Logger \<Rightarrow> TimeSource \<Rightarrow> goerror \<Rightarrow> gopanic + 'e list"

type_synonym 'e RequestStartListener =
  "Logger \<Rightarrow> TimeSource \<Rightarrow> Request option \<Rightarrow> gopanic + 'e list"

type_synonym 'e RequestListener =
  "Logger \<Rightarrow> TimeSource \<Rightarrow> Request option \<Rightarrow> int \<Rightarrow> int \<Rightarrow> int \<Rightarrow> gopanic + 'e list"

type_synonym 'e RequestBodyListener = "Logger \<Rightarrow> TimeSource \<Rightarrow> 8 word list \<Rightarrow> gopanic + 'e list"

type_synonym 'e ResponseListener = "Logger \<Rightarrow> TimeSource \<Rightarrow> 8 word list \<Rightarrow> gopanic + 'e list"

text \<open>
  \<open>state[0].(error)\<close> is a type assertion: it holds exactly when the dynamic value is
  an error; likewise for \<open>*http.Request\<close>.
\<close>

definition NewErrorListener :: "'e ErrorListener \<Rightarrow> 'e EventListener" where
  "NewErrorListener listener = (\<lambda>writer ts eventFlag state.
     if length state > 0 then
       (case index state 0 of
          Inl p \<Rightarrow> Inl p
        | Inr v \<Rightarrow> (case v of AnError typedError \<Rightarrow> listener writer ts typedError | _ \<Rightarrow> Inr []))
     else Inr [])"

definition NewRequestStartListener :: "'e RequestStartListener \<Rightarrow> 'e EventListener" where
  "NewRequestStartListener listener = (\<lambda>writer ts eventFlag state.
     if length state > 0 then
       (case index state 0 of
          Inl p \<Rightarrow> Inl p
        | Inr v \<Rightarrow> (case v of ARequest typedRequest \<Rightarrow> listener writer ts typedRequest | _ \<Rightarrow> Inr []))
     else Inr [])"

definition NewRequestListener :: "'e RequestListener \<Rightarrow> 'e EventListener" where
  "NewRequestListener listener = (\<lambda>writer ts eventFlag state.
     if length state < 3 then Inr []
     else
       (case index state 0 of Inl p \<Rightarrow> Inl p | Inr v0 \<Rightarrow>
       (case stateAsRequest v0 of Inl err \<Rightarrow> Inr [] | Inr req \<Rightarrow>
       (case index state 1 of Inl p \<Rightarrow> Inl p | Inr v1 \<Rightarrow>
       (case stateAsInteger v1 of Inl err \<Rightarrow> Inr [] | Inr statusCode \<Rightarrow>
       (case index state 2 of Inl p \<Rightarrow> Inl p | Inr v2 \<Rightarrow>
       (case stateAsInteger v2 of Inl err \<Rightarrow> Inr [] | Inr contentLengthBytes \<Rightarrow>
       (case index state 3 of Inl p \<Rightarrow> Inl p | Inr v3 \<Rightarrow>
       (case stateAsDuration v3 of Inl err \<Rightarrow> Inr [] | Inr elapsed \<Rightarrow>
          listener writer ts req statusCode contentLengthBytes elapsed)))))))))"

definition NewRequestBodyListener :: "'e RequestBodyListener \<Rightarrow> 'e EventListener" where
  "NewRequestBodyListener listener = (\<lambda>writer ts eventFlag state.
     if length state < 1 then Inr []
     else
       (case index state 0 of Inl p \<Rightarrow> Inl p | Inr v \<Rightarrow>
       (case stateAsBytes v of Inl err \<Rightarrow> Inr [] | Inr body \<Rightarrow> listener writer ts body)))"

definition NewResponseListener :: "'e ResponseListener \<Rightarrow> 'e EventListener" where
  "NewResponseListener listener = (\<lambda>writer ts eventFlag state.
     if length state < 1 then Inr []
     else
       (case index state 0 of Inl p \<Rightarrow> Inl p | Inr v \<Rightarrow>
       (case stateAsBytes v of Inl err \<Rightarrow> Inr [] | Inr res \<Rightarrow> listener writer ts res)))"

section \<open>The flag set\<close>

text \<open>
  Modelled from the spec: the source of \<open>EventFlagSet\<close> is not among the sources. The spec
  describes a mutable set of event kinds with \<open>Enable\<close>, \<open>Disable\<close> and \<open>IsEnabled\<close>, the
  named combinations "all" and "none", and says that \<open>IsEnabled\<close> on a nil set answers
  false. The agent holds a pointer to the set, which may be nil. \<open>Enable\<close> and \<open>Disable\<close>
  write through that pointer, which for a nil pointer is a nil pointer dereference.
\<close>

type_synonym EventFlagSet = "EventFlag set"

definition NewEventFlagSetNone :: EventFlagSet where
  "NewEventFlagSetNone = {}"

definition NewEventFlagSetAll :: EventFlagSet where
  "NewEventFlagSetAll = UNIV"

definition NewEventFlagSetWithEvents :: "EventFlag list \<Rightarrow> EventFlagSet" where
  "NewEventFlagSetWithEvents flags = set flags"

definition EventFlagSet_IsEnabled :: "EventFlagSet option \<Rightarrow> EventFlag \<Rightarrow> bool" where
  "EventFlagSet_IsEnabled efs flagValue = (case efs of None \<Rightarrow> False | Some s \<Rightarrow> flagValue \<in> s)"

definition EventFlagSet_Enable :: "EventFlagSet option \<Rightarrow> EventFlag \<Rightarrow> gopanic + EventFlagSet" where
  "EventFlagSet_Enable efs flagValue =
     (case efs of None \<Rightarrow> Inl NilPointerDereference | Some s \<Rightarrow> Inr (insert flagValue s))"

definition EventFlagSet_Disable :: "EventFlagSet option \<Rightarrow> EventFlag \<Rightarrow> gopanic + EventFlagSet" where
  "EventFlagSet_Disable efs flagValue =
     (case efs of None \<Rightarrow> Inl NilPointerDereference | Some s \<Rightarrow> Inr (s - {flagValue}))"

section \<open>The work queue\<close>

text \<open>
  The queue is the external library \<open>go-workqueue\<close>. The agent submits a task with
  \<open>Enqueue(action, args...)\<close>; a worker later calls \<open>action(args...)\<close>. The three actions
  the agent submits are its own method values. The model keeps the tasks submitted and
  not yet run, in submission order. The capacity of the queue (a full queue blocks the
  producer until a worker frees a slot), its worker threads, and what it does with a
  task submitted after it was closed are the library's and are outside the model.

  \<open>Enqueue\<close> is variadic in \<open>...interface{}\<close>. \<open>Args\<close> is the argument slice the call
  builds: a call \<open>Enqueue(f, xs...)\<close> passes the slice \<open>xs\<close> itself, a call
  \<open>Enqueue(f, xs)\<close> with \<open>xs\<close> of type \<open>[]interface{}\<close> passes the one-element slice
  holding \<open>xs\<close>.
\<close>

datatype Action = da_triggerListeners | da_write | da_writeError

record Entry =
  Action :: Action
  Args :: "iface list"

type_synonym Queue = "Entry list"

definition Enqueue :: "Queue \<Rightarrow> Action \<Rightarrow> iface list \<Rightarrow> Queue" where
  "Enqueue q action args = q @ [\<lparr>Action = action, Args = args\<rparr>]"

definition Len :: "Queue \<Rightarrow> nat" where
  "Len q = length q"

definition newEventQueue :: Queue where
  "newEventQueue = []"

section \<open>The agent\<close>

text \<open>
  \<open>eventListeners\<close> is a Go map, which may be nil; a \<open>*Agent\<close> may be nil too, so the
  receiver of every method is an \<open>Agent option\<close>. A method that writes through its
  receiver returns the agent as it is afterwards.
\<close>

record 'e Agent =
  writer :: Logger
  events :: "EventFlagSet option"
  eventListeners :: "(EventFlag \<rightharpoonup> 'e EventListener list) option"
  eventQueue :: Queue

definition NewLogWriter :: Logger where
  "NewLogWriter = LogWriter 0"

definition New :: "EventFlagSet option \<Rightarrow> Logger list \<Rightarrow> 'e Agent" where
  "New events' optionalWriter =
     \<lparr>writer = (case optionalWriter of [] \<Rightarrow> NewLogWriter | w # rest \<Rightarrow> w),
      events = events',
      eventListeners = Some Map.empty,
      eventQueue = newEventQueue\<rparr>"

definition SetVerbosity :: "'e Agent option \<Rightarrow> EventFlagSet option \<Rightarrow> gopanic + 'e Agent" where
  "SetVerbosity da events' =
     (case da of None \<Rightarrow> Inl NilPointerDereference | Some a \<Rightarrow> Inr (a\<lparr>events := events'\<rparr>))"

definition EnableEvent :: "'e Agent option \<Rightarrow> EventFlag \<Rightarrow> gopanic + 'e Agent" where
  "EnableEvent da eventFlag =
     (case da of
        None \<Rightarrow> Inl NilPointerDereference
      | Some a \<Rightarrow>
          (case EventFlagSet_Enable (events a) eventFlag of
             Inl p \<Rightarrow> Inl p
           | Inr s \<Rightarrow> Inr (a\<lparr>events := Some s\<rparr>)))"

definition DisableEvent :: "'e Agent option \<Rightarrow> EventFlag \<Rightarrow> gopanic + 'e Agent" where
  "DisableEvent da eventFlag =
     (case da of
        None \<Rightarrow> Inl NilPointerDereference
      | Some a \<Rightarrow>
          (case EventFlagSet_Disable (events a) eventFlag of
             Inl p \<Rightarrow> Inl p
           | Inr s \<Rightarrow> Inr (a\<lparr>events := Some s\<rparr>)))"

definition IsEnabled :: "'e Agent option \<Rightarrow> EventFlag \<Rightarrow> bool" where
  "IsEnabled da flagValue =
     (case da of None \<Rightarrow> False | Some a \<Rightarrow> EventFlagSet_IsEnabled (events a) flagValue)"

definition HasListener :: "'e Agent option \<Rightarrow> EventFlag \<Rightarrow> bool" where
  "HasListener da event =
     (case da of
        None \<Rightarrow> False
      | Some a \<Rightarrow>
          (case eventListeners a of
             None \<Rightarrow> False
           | Some m \<Rightarrow> (case m event of None \<Rightarrow> False | Some listeners \<Rightarrow> length listeners > 0)))"

text \<open>Reading a key of a nil map, or a key that is absent, gives the nil slice.\<close>

definition listenersFor :: "'e Agent \<Rightarrow> EventFlag \<Rightarrow> 'e EventListener list" where
  "listenersFor a eventFlag =
     (case eventListeners a of
        None \<Rightarrow> []
      | Some m \<Rightarrow> (case m eventFlag of None \<Rightarrow> [] | Some listeners \<Rightarrow> listeners))"

text \<open>Storing into a nil map panics; deleting from one does nothing.\<close>

definition AddEventListener ::
  "'e Agent option \<Rightarrow> EventFlag \<Rightarrow> 'e EventListener \<Rightarrow> gopanic + 'e Agent" where
  "AddEventListener da eventFlag listener =
     (case da of
        None \<Rightarrow> Inl NilPointerDereference
      | Some a \<Rightarrow>
          (case eventListeners a of
             None \<Rightarrow> Inl NilMapAssignment
           | Some m \<Rightarrow>
               Inr (a\<lparr>eventListeners := Some (m(eventFlag \<mapsto> listenersFor a eventFlag @ [listener]))\<rparr>)))"

definition RemoveListeners :: "'e Agent option \<Rightarrow> EventFlag \<Rightarrow> gopanic + 'e Agent" where
  "RemoveListeners da eventFlag =
     (case da of
        None \<Rightarrow> Inl NilPointerDereference
      | Some a \<Rightarrow>
          (case eventListeners a of
             None \<Rightarrow> Inr a
           | Some m \<Rightarrow> Inr (a\<lparr>eventListeners := Some (m(eventFlag := None))\<rparr>)))"

subsection \<open>Emission\<close>

text \<open>
  \<open>TimeNow()\<close> reads the clock; each reading is an argument of the model (\<open>now\<close>, or
  \<open>now1\<close> and \<open>now2\<close> where the method reads the clock for the write task and again for
  the trigger task). \<open>fmt.Sprintf\<close> is the Go library's and is an argument too;
  \<open>fmt.Errorf\<close> builds the error whose message is the formatted string.

  \<open>queueWrite\<close> and \<open>queueWriteError\<close> are called only after \<open>IsEnabled\<close> has answered
  true, which it does for no nil receiver: they take the agent itself.
\<close>

definition fmt_Errorf :: "(string \<Rightarrow> iface list \<Rightarrow> string) \<Rightarrow> string \<Rightarrow> iface list \<Rightarrow> goerror" where
  "fmt_Errorf Sprintf format args = GoError (Sprintf format args)"

definition queueWrite ::
  "TimeSource \<Rightarrow> 'e Agent \<Rightarrow> EventFlag \<Rightarrow> AnsiColorCode \<Rightarrow> string \<Rightarrow> iface list \<Rightarrow> 'e Agent" where
  "queueWrite now a eventFlag color format args =
     (if length format > 0 then
        a\<lparr>eventQueue := Enqueue (eventQueue a) da_write
             ([ATimeSource now, AEventFlag eventFlag, AColor color, AString format] @ args)\<rparr>
      else a)"

definition queueWriteError ::
  "TimeSource \<Rightarrow> 'e Agent \<Rightarrow> EventFlag \<Rightarrow> AnsiColorCode \<Rightarrow> string \<Rightarrow> iface list \<Rightarrow> 'e Agent" where
  "queueWriteError now a eventFlag color format args =
     (if length format > 0 then
        a\<lparr>eventQueue := Enqueue (eventQueue a) da_writeError
             ([ATimeSource now, AEventFlag eventFlag, AColor color, AString format] @ args)\<rparr>
      else a)"

definition OnEvent :: "TimeSource \<Rightarrow> 'e Agent option \<Rightarrow> EventFlag \<Rightarrow> iface list \<Rightarrow> 'e Agent option" where
  "OnEvent now da eventFlag state =
     (case da of
        None \<Rightarrow> None
      | Some a \<Rightarrow>
          if IsEnabled da eventFlag \<and> HasListener da eventFlag then
            Some (a\<lparr>eventQueue := Enqueue (eventQueue a) da_triggerListeners
                       ([ATimeSource now, AEventFlag eventFlag] @ state)\<rparr>)
          else da)"

definition Infof ::
  "TimeSource \<Rightarrow> TimeSource \<Rightarrow> 'e Agent option \<Rightarrow> string \<Rightarrow> iface list \<Rightarrow> 'e Agent option" where
  "Infof now1 now2 da format args =
     (if IsEnabled da EventInfo then
        map_option (\<lambda>a.
          let a1 = queueWrite now1 a EventInfo ColorWhite format args in
          if HasListener (Some a1) EventInfo then
            a1\<lparr>eventQueue := Enqueue (eventQueue a1) da_triggerListeners
                  ([ATimeSource now2, AEventFlag EventInfo, AString format] @ args)\<rparr>
          else a1) da
      else da)"

definition Debugf ::
  "TimeSource \<Rightarrow> TimeSource \<Rightarrow> 'e Agent option \<Rightarrow> string \<Rightarrow> iface list \<Rightarrow> 'e Agent option" where
  "Debugf now1 now2 da format args =
     (if IsEnabled da EventDebug then
        map_option (\<lambda>a.
          let a1 = queueWrite now1 a EventDebug ColorLightYellow format args in
          if HasListener (Some a1) EventDebug then
            a1\<lparr>eventQueue := Enqueue (eventQueue a1) da_triggerListeners
                  ([ATimeSource now2, AEventFlag EventDebug, AString format] @ args)\<rparr>
          else a1) da
      else da)"

text \<open>
  The warning, error and fatal methods hand \<open>Enqueue\<close> the slice
  \<open>[]interface{}{TimeNow(), flag, err}\<close> as one argument, without \<open>...\<close>: the task's
  argument slice has that slice as its only element.
\<close>

definition Warningf ::
  "(string \<Rightarrow> iface list \<Rightarrow> string) \<Rightarrow> TimeSource \<Rightarrow> TimeSource \<Rightarrow> 'e Agent option \<Rightarrow> string \<Rightarrow> iface list
     \<Rightarrow> goerror option \<times> 'e Agent option" where
  "Warningf Sprintf now1 now2 da format args =
     (let err = fmt_Errorf Sprintf format args in
      (Some err,
       if IsEnabled da EventWarning then
         map_option (\<lambda>a.
           let a1 = queueWriteError now1 a EventWarning ColorRed format args in
           if HasListener (Some a1) EventWarning then
             a1\<lparr>eventQueue := Enqueue (eventQueue a1) da_triggerListeners
                   [ASlice [ATimeSource now2, AEventFlag EventWarning, AnError err]]\<rparr>
           else a1) da
       else da))"

definition Warning ::
  "(string \<Rightarrow> iface list \<Rightarrow> string) \<Rightarrow> TimeSource \<Rightarrow> TimeSource \<Rightarrow> 'e Agent option \<Rightarrow> goerror option
     \<Rightarrow> goerror option \<times> 'e Agent option" where
  "Warning Sprintf now1 now2 da err =
     (case err of
        None \<Rightarrow> (err, da)
      | Some e \<Rightarrow>
          (err,
           if IsEnabled da EventWarning then
             map_option (\<lambda>a.
               let a1 = queueWriteError now1 a EventWarning ColorRed (Sprintf ''%+v'' [AnError e]) [] in
               if HasListener (Some a1) EventWarning then
                 a1\<lparr>eventQueue := Enqueue (eventQueue a1) da_triggerListeners
                       [ASlice [ATimeSource now2, AEventFlag EventWarning, AnError e]]\<rparr>
               else a1) da
           else da))"

definition WarningWithReq ::
  "(string \<Rightarrow> iface list \<Rightarrow> string) \<Rightarrow> TimeSource \<Rightarrow> TimeSource \<Rightarrow> 'e Agent option \<Rightarrow> goerror option
     \<Rightarrow> Request option \<Rightarrow> goerror option \<times> 'e Agent option" where
  "WarningWithReq Sprintf now1 now2 da err req =
     (case err of
        None \<Rightarrow> (err, da)
      | Some e \<Rightarrow>
          (err,
           if IsEnabled da EventWarning then
             map_option (\<lambda>a.
               let a1 = queueWriteError now1 a EventWarning ColorRed (Sprintf ''%+v'' [AnError e]) [] in
               if HasListener (Some a1) EventWarning then
                 a1\<lparr>eventQueue := Enqueue (eventQueue a1) da_triggerListeners
                       [ASlice [ATimeSource now2, AEventFlag EventWarning, AnError e, ARequest req]]\<rparr>
               else a1) da
           else da))"

definition Errorf ::
  "(string \<Rightarrow> iface list \<Rightarrow> string) \<Rightarrow> TimeSource \<Rightarrow> TimeSource \<Rightarrow> 'e Agent option \<Rightarrow> string \<Rightarrow> iface list
     \<Rightarrow> goerror option \<times> 'e Agent option" where
  "Errorf Sprintf now1 now2 da format args =
     (let err = fmt_Errorf Sprintf format args in
      (Some err,
       if IsEnabled da EventError then
         map_option (\<lambda>a.
           let a1 = queueWriteError now1 a EventError ColorRed format args in
           if HasListener (Some a1) EventError then
             a1\<lparr>eventQueue := Enqueue (eventQueue a1) da_triggerListeners
                   [ASlice [ATimeSource now2, AEventFlag EventError, AnError err]]\<rparr>
           else a1) da
       else da))"

definition Error ::
  "(string \<Rightarrow> iface list \<Rightarrow> string) \<Rightarrow> TimeSource \<Rightarrow> TimeSource \<Rightarrow> 'e Agent option \<Rightarrow> goerror option
     \<Rightarrow> goerror option \<times> 'e Agent option" where
  "Error Sprintf now1 now2 da err =
     (case err of
        None \<Rightarrow> (err, da)
      | Some e \<Rightarrow>
          (err,
           if IsEnabled da EventError then
             map_option (\<lambda>a.
               let a1 = queueWriteError now1 a EventError ColorRed (Sprintf ''%+v'' [AnError e]) [] in
               if HasListener (Some a1) EventError then
                 a1\<lparr>eventQueue := Enqueue (eventQueue a1) da_triggerListeners
                       [ASlice [ATimeSource now2, AEventFlag EventError, AnError e]]\<rparr>
               else a1) da
           else da))"

definition ErrorWithReq ::
  "(string \<Rightarrow> iface list \<Rightarrow> string) \<Rightarrow> TimeSource \<Rightarrow> TimeSource \<Rightarrow> 'e Agent option \<Rightarrow> goerror option
     \<Rightarrow> Request option \<Rightarrow> goerror option \<times> 'e Agent option" where
  "ErrorWithReq Sprintf now1 now2 da err req =
     (case err of
        None \<Rightarrow> (err, da)
      | Some e \<Rightarrow>
          (err,
           if IsEnabled da EventError then
             map_option (\<lambda>a.
               let a1 = queueWriteError now1 a EventError ColorRed (Sprintf ''%+v'' [AnError e]) [] in
               if HasListener (Some a1) EventError then
                 a1\<lparr>eventQueue := Enqueue (eventQueue a1) da_triggerListeners
                       [ASlice [ATimeSource now2, AEventFlag EventError, AnError e, ARequest req]]\<rparr>
               else a1) da
           else da))"

definition Fatalf ::
  "(string \<Rightarrow> iface list \<Rightarrow> string) \<Rightarrow> TimeSource \<Rightarrow> TimeSource \<Rightarrow> 'e Agent option \<Rightarrow> string \<Rightarrow> iface list
     \<Rightarrow> goerror option \<times> 'e Agent option" where
  "Fatalf Sprintf now1 now2 da format args =
     (let err = fmt_Errorf Sprintf format args in
      (Some err,
       if IsEnabled da EventFatalError then
         map_option (\<lambda>a.
           let a1 = queueWriteError now1 a EventFatalError ColorRed format args in
           if HasListener (Some a1) EventFatalError then
             a1\<lparr>eventQueue := Enqueue (eventQueue a1) da_triggerListeners
                   [ASlice [ATimeSource now2, AEventFlag EventFatalError, AnError err]]\<rparr>
           else a1) da
       else da))"

definition Fatal ::
  "(string \<Rightarrow> iface list \<Rightarrow> string) \<Rightarrow> TimeSource \<Rightarrow> TimeSource \<Rightarrow> 'e Agent option \<Rightarrow> goerror option
     \<Rightarrow> goerror option \<times> 'e Agent option" where
  "Fatal Sprintf now1 now2 da err =
     (case err of
        None \<Rightarrow> (err, da)
      | Some e \<Rightarrow>
          (err,
           if IsEnabled da EventFatalError then
             map_option (\<lambda>a.
               let a1 = queueWriteError now1 a EventFatalError ColorRed (Sprintf ''%+v'' [AnError e]) [] in
               if HasListener (Some a1) EventFatalError then
                 a1\<lparr>eventQueue := Enqueue (eventQueue a1) da_triggerListeners
                       [ASlice [ATimeSource now2, AEventFlag EventFatalError, AnError e]]\<rparr>
               else a1) da
           else da))"

definition FatalWithReq ::
  "(string \<Rightarrow> iface list \<Rightarrow> string) \<Rightarrow> TimeSource \<Rightarrow> TimeSource \<Rightarrow> 'e Agent option \<Rightarrow> goerror option
     \<Rightarrow> Request option \<Rightarrow> goerror option \<times> 'e Agent option" where
  "FatalWithReq Sprintf now1 now2 da err req =
     (case err of
        None \<Rightarrow> (err, da)
      | Some e \<Rightarrow>
          (err,
           if IsEnabled da EventFatalError then
             map_option (\<lambda>a.
               let a1 = queueWriteError now1 a EventFatalError ColorRed (Sprintf ''%+v'' [AnError e]) [] in
               if HasListener (Some a1) EventFatalError then
                 a1\<lparr>eventQueue := Enqueue (eventQueue a1) da_triggerListeners
                       [ASlice [ATimeSource now2, AEventFlag EventFatalError, AnError e, ARequest req]]\<rparr>
               else a1) da
           else da))"

subsection \<open>Shutdown\<close>

text \<open>
  \<open>Close\<close> hands over to the queue's own \<open>Close\<close>, which belongs to the library and is an
  argument of the model. \<open>Drain\<close> polls the queue length and sleeps in between; the
  queue only shrinks through the library's worker threads, which run meanwhile. What
  happens to the agent during one sleep is the argument \<open>sleep\<close>; a wait that never ends
  is \<open>None\<close>.
\<close>

definition Close ::
  "(Queue \<Rightarrow> goerror option \<times> Queue) \<Rightarrow> 'e Agent option \<Rightarrow> gopanic + (goerror option \<times> 'e Agent)" where
  "Close queueClose da =
     (case da of
        None \<Rightarrow> Inl NilPointerDereference
      | Some a \<Rightarrow> (case queueClose (eventQueue a) of (err, q) \<Rightarrow> Inr (err, a\<lparr>eventQueue := q\<rparr>)))"

partial_function (option) Drain_wait :: "('e Agent \<Rightarrow> 'e Agent) \<Rightarrow> 'e Agent \<Rightarrow> 'e Agent option" where
  "Drain_wait sleep a = (if Len (eventQueue a) > 0 then Drain_wait sleep (sleep a) else Some a)"

definition Drain ::
  "('e Agent \<Rightarrow> 'e Agent) \<Rightarrow> (Queue \<Rightarrow> goerror option \<times> Queue) \<Rightarrow> 'e Agent option
     \<Rightarrow> (gopanic + (goerror option \<times> 'e Agent)) option" where
  "Drain sleep queueClose da =
     (case SetVerbosity da (Some NewEventFlagSetNone) of
        Inl p \<Rightarrow> Some (Inl p)
      | Inr a \<Rightarrow>
          (case Drain_wait sleep a of
             None \<Rightarrow> None
           | Some a' \<Rightarrow> Some (Close queueClose (Some a'))))"

subsection \<open>Running a trigger task\<close>

text \<open>
  The loop of \<open>triggerListeners\<close> calls the listeners of the slice it read, in order. A
  listener that panics ends the run. \<open>triggerListeners\<close> runs as a queued method value
  of an agent that passed \<open>IsEnabled\<close>, so its receiver is not nil.
\<close>

fun callListeners ::
  "'e EventListener list \<Rightarrow> Logger \<Rightarrow> TimeSource \<Rightarrow> EventFlag \<Rightarrow> iface list \<Rightarrow> gopanic + 'e list" where
  "callListeners [] w timeSource eventFlag state = Inr []"
| "callListeners (listener # listeners) w timeSource eventFlag state =
     (case listener w timeSource eventFlag state of
        Inl p \<Rightarrow> Inl p
      | Inr es \<Rightarrow>
          (case callListeners listeners w timeSource eventFlag state of
             Inl p \<Rightarrow> Inl p
           | Inr es' \<Rightarrow> Inr (es @ es')))"

definition triggerListeners :: "'e Agent \<Rightarrow> iface list \<Rightarrow> gopanic + (goerror option \<times> 'e list)" where
  "triggerListeners a actionState =
     (if length actionState < 2 then Inr (None, [])
      else
        (case index actionState 0 of Inl p \<Rightarrow> Inl p | Inr v0 \<Rightarrow>
        (case stateAsTimeSource v0 of Inl err \<Rightarrow> Inr (Some err, []) | Inr timeSource \<Rightarrow>
        (case index actionState 1 of Inl p \<Rightarrow> Inl p | Inr v1 \<Rightarrow>
        (case stateAsEventFlag v1 of Inl err \<Rightarrow> Inr (Some err, []) | Inr eventFlag \<Rightarrow>
        (case callListeners (listenersFor a eventFlag) (writer a) timeSource eventFlag
                (drop 2 actionState) of
           Inl p \<Rightarrow> Inl p
         | Inr es \<Rightarrow> Inr (None, es)))))))"

subsection \<open>What is pending in the queue\<close>

definition pending :: "'e Agent option \<Rightarrow> Queue" where
  "pending da = (case da of None \<Rightarrow> [] | Some a \<Rightarrow> eventQueue a)"

definition isWriteTask :: "Entry \<Rightarrow> bool" where
  "isWriteTask e = (Action e = da_write \<or> Action e = da_writeError)"

subsection \<open>Locking around the registry\<close>

text \<open>
  The three functions that touch the listener map, as the sequence of mutex and map
  operations each performs, in source order. \<open>AddEventListener\<close> locks, reads the slice
  of the kind, stores the extended slice and unlocks. \<open>RemoveListeners\<close> is the single
  statement \<open>delete(da.eventListeners, eventFlag)\<close>. \<open>triggerListeners\<close> locks, reads the
  slice of the kind and unlocks before it runs the listeners.
\<close>

datatype syncOp = MutexLock | MutexUnlock | MapRead EventFlag | MapWrite EventFlag | MapDelete EventFlag

definition AddEventListener_ops :: "EventFlag \<Rightarrow> syncOp list" where
  "AddEventListener_ops eventFlag = [MutexLock, MapRead eventFlag, MapWrite eventFlag, MutexUnlock]"

definition RemoveListeners_ops :: "EventFlag \<Rightarrow> syncOp list" where
  "RemoveListeners_ops eventFlag = [MapDelete eventFlag]"

definition triggerListeners_ops :: "EventFlag \<Rightarrow> syncOp list" where
  "triggerListeners_ops eventFlag = [MutexLock, MapRead eventFlag, MutexUnlock]"

text \<open>
  \<open>underLock held ops\<close>: every map operation of \<open>ops\<close> happens while the mutex is held,
  \<open>held\<close> telling whether it is held at the start.
\<close>

fun underLock :: "bool \<Rightarrow> syncOp list \<Rightarrow> bool" where
  "underLock held [] = True"
| "underLock held (MutexLock # ops) = underLock True ops"
| "underLock held (MutexUnlock # ops) = underLock False ops"
| "underLock held (MapRead k # ops) = (held \<and> underLock held ops)"
| "underLock held (MapWrite k # ops) = (held \<and> underLock held ops)"
| "underLock held (MapDelete k # ops) = (held \<and> underLock held ops)"

section \<open>Properties\<close>

lemmas emit_defs = Warningf_def Warning_def WarningWithReq_def Errorf_def Error_def ErrorWithReq_def
  Fatalf_def Fatal_def FatalWithReq_def Infof_def Debugf_def OnEvent_def

subsection \<open>Registration\<close>

text \<open>
  An agent made by \<open>New\<close> with only the error kind enabled, after one listener is added
  for the error kind.
\<close>

lemma registered_error_listener_agent:
  "AddEventListener (Some (New (Some (NewEventFlagSetWithEvents [EventError])) [w])) EventError l =
   Inr \<lparr>writer = w, events = Some {EventError},
        eventListeners = Some [EventError \<mapsto> [l]], eventQueue = []\<rparr>"
  by (simp add: AddEventListener_def New_def NewEventFlagSetWithEvents_def listenersFor_def
        newEventQueue_def)

text \<open>Listeners are kept in the order in which they were added.\<close>

lemma AddEventListener_appends:
  "AddEventListener (Some a) k l = Inr a' \<Longrightarrow> listenersFor a' k = listenersFor a k @ [l]"
  by (auto simp: AddEventListener_def listenersFor_def split: option.splits)

subsection \<open>Running the listeners\<close>

lemma callListeners_no_panic:
  "\<forall>l \<in> set ls. \<exists>es. l w ts k st = Inr es \<Longrightarrow>
   callListeners ls w ts k st = Inr (concat (map (\<lambda>l. projr (l w ts k st)) ls))"
  by (induction ls) (auto split: sum.splits)

text \<open>
  A trigger task whose argument slice starts with the time source and the kind decodes
  both and hands the rest to the listeners of the kind.
\<close>

lemma triggerListeners_decodes:
  "triggerListeners b (ATimeSource now # AEventFlag k # st) =
     (case callListeners (listenersFor b k) (writer b) now k st of
        Inl p \<Rightarrow> Inl p | Inr es \<Rightarrow> Inr (None, es))"
  by (simp add: triggerListeners_def index_def stateAsTimeSource_def stateAsEventFlag_def)

text \<open>
  \<^bold>\<open>Claim C1\<close> says that \<open>Errorf("boom")\<close>, on an agent with the error kind enabled and an
  error-listener adapter registered for it, leads to exactly one call of the wrapped
  callback once the queued trigger task has run. The source does otherwise. \<open>Errorf\<close>
  queues the write task and a trigger task whose argument slice has one element, the
  slice \<open>[time, kind, err]\<close>; \<open>triggerListeners\<close> finds fewer than two arguments and
  returns nil without calling any listener. So for every callback \<open>cb\<close> the run of the
  trigger task has no effect at all.
\<close>

theorem Errorf_boom_listener_not_called:
  "Errorf Sprintf now1 now2
     (Some \<lparr>writer = w, events = Some {EventError},
            eventListeners = Some [EventError \<mapsto> [NewErrorListener cb]], eventQueue = []\<rparr>)
     ''boom'' [] =
   (Some (GoError (Sprintf ''boom'' [])),
    Some \<lparr>writer = w, events = Some {EventError},
          eventListeners = Some [EventError \<mapsto> [NewErrorListener cb]],
          eventQueue =
            [\<lparr>Action = da_writeError,
              Args = [ATimeSource now1, AEventFlag EventError, AColor ColorRed, AString ''boom'']\<rparr>,
             \<lparr>Action = da_triggerListeners,
              Args = [ASlice [ATimeSource now2, AEventFlag EventError,
                              AnError (GoError (Sprintf ''boom'' []))]]\<rparr>]\<rparr>) \<and>
   triggerListeners
     \<lparr>writer = w, events = Some {EventError},
      eventListeners = Some [EventError \<mapsto> [NewErrorListener cb]], eventQueue = []\<rparr>
     [ASlice [ATimeSource now2, AEventFlag EventError, AnError (GoError (Sprintf ''boom'' []))]] =
   Inr (None, [])"
  by (simp add: Errorf_def fmt_Errorf_def IsEnabled_def EventFlagSet_IsEnabled_def HasListener_def
        queueWriteError_def Enqueue_def triggerListeners_def Let_def)

text \<open>
  Had the three values been passed as the argument slice itself, as \<open>OnEvent\<close> and
  \<open>Infof\<close> pass theirs, the same agent would have called the callback with the error.
\<close>

lemma trigger_with_spread_arguments_calls_listener:
  "triggerListeners
     \<lparr>writer = w, events = ev,
      eventListeners = Some [EventError \<mapsto> [NewErrorListener cb]], eventQueue = q\<rparr>
     [ATimeSource now2, AEventFlag EventError, AnError e] =
   (case cb w now2 e of Inl p \<Rightarrow> Inl p | Inr es \<Rightarrow> Inr (None, es))"
  by (simp add: triggerListeners_decodes listenersFor_def NewErrorListener_def index_def
        split: sum.splits)

subsection \<open>Typed adapters\<close>

lemma stateAsRequest_mismatch:
  "\<forall>r. v \<noteq> ARequest r \<Longrightarrow> stateAsRequest v = Inl (GoError ''not a request'')"
  by (cases v) (simp_all add: stateAsRequest_def)

lemma stateAsInteger_mismatch:
  "\<forall>n. v \<noteq> AnInt n \<Longrightarrow> stateAsInteger v = Inl (GoError ''not an integer'')"
  by (cases v) (simp_all add: stateAsInteger_def)

lemma stateAsDuration_mismatch:
  "\<forall>d. v \<noteq> ADuration d \<Longrightarrow> stateAsDuration v = Inl (GoError ''not a duration'')"
  by (cases v) (simp_all add: stateAsDuration_def)

text \<open>
  The adapters for an error, a request and a byte slice drop a call with no argument or
  with a first argument of another type, whatever the callback is.
\<close>

lemma NewErrorListener_drops:
  "NewErrorListener cb w ts k [] = Inr []"
  "\<forall>e. v \<noteq> AnError e \<Longrightarrow> NewErrorListener cb w ts k (v # rest) = Inr []"
  by (simp add: NewErrorListener_def, cases v) (auto simp: NewErrorListener_def index_def)

lemma NewRequestStartListener_drops:
  "NewRequestStartListener cb w ts k [] = Inr []"
  "\<forall>r. v \<noteq> ARequest r \<Longrightarrow> NewRequestStartListener cb w ts k (v # rest) = Inr []"
  by (simp add: NewRequestStartListener_def, cases v)
     (auto simp: NewRequestStartListener_def index_def)

lemma NewRequestBodyListener_drops:
  "NewRequestBodyListener cb w ts k [] = Inr []"
  "\<forall>b. v \<noteq> ABytes b \<Longrightarrow> NewRequestBodyListener cb w ts k (v # rest) = Inr []"
  by (simp add: NewRequestBodyListener_def, cases v)
     (auto simp: NewRequestBodyListener_def index_def stateAsBytes_def)

text \<open>
  The adapter for a completed request drops a call with fewer than three arguments, and
  a call with four or more arguments one of whose first four has the wrong type.
\<close>

lemma NewRequestListener_short:
  "length state < 3 \<Longrightarrow> NewRequestListener cb w ts k state = Inr []"
  by (simp add: NewRequestListener_def)

lemma NewRequestListener_drops:
  assumes "(\<forall>r. v0 \<noteq> ARequest r) \<or> (\<forall>n. v1 \<noteq> AnInt n) \<or> (\<forall>n. v2 \<noteq> AnInt n) \<or>
           (\<forall>d. v3 \<noteq> ADuration d)"
  shows "NewRequestListener cb w ts k (v0 # v1 # v2 # v3 # rest) = Inr []"
proof -
  have unfolded: "NewRequestListener cb w ts k (v0 # v1 # v2 # v3 # rest) =
       (case stateAsRequest v0 of Inl err \<Rightarrow> Inr [] | Inr req \<Rightarrow>
       (case stateAsInteger v1 of Inl err \<Rightarrow> Inr [] | Inr statusCode \<Rightarrow>
       (case stateAsInteger v2 of Inl err \<Rightarrow> Inr [] | Inr contentLengthBytes \<Rightarrow>
       (case stateAsDuration v3 of Inl err \<Rightarrow> Inr [] | Inr elapsed \<Rightarrow>
          cb w ts req statusCode contentLengthBytes elapsed))))"
    by (simp add: NewRequestListener_def index_def split: sum.splits)
  from assms show ?thesis
    unfolding unfolded
    by (auto simp: stateAsRequest_mismatch stateAsInteger_mismatch stateAsDuration_mismatch
          split: sum.splits)
qed

text \<open>
  \<^bold>\<open>Claim C2\<close> says that every typed adapter, given an argument tuple in which an
  argument is missing or has the wrong type, neither calls the wrapped callback nor
  panics. The adapter for a completed request breaks this when the fourth argument, the
  elapsed time, is missing: it returns early only for fewer than three arguments, so with
  exactly three well-typed arguments it decodes them and then reads \<open>state[3]\<close>, which
  is out of range.
\<close>

theorem RequestListener_three_arguments_panics:
  "NewRequestListener cb w ts k [ARequest r, AnInt statusCode, AnInt contentLengthBytes] =
   Inl IndexOutOfRange"
  by (simp add: NewRequestListener_def index_def stateAsRequest_def stateAsInteger_def)

subsection \<open>The nil receiver\<close>

text \<open>
  \<^bold>\<open>Claim C3\<close> says that every public method is a no-op on a nil \<open>*Agent\<close> and does not
  crash. That holds for the queries and the emission methods: \<open>IsEnabled\<close>,
  \<open>HasListener\<close> and \<open>OnEvent\<close> test the receiver for nil, and the other emission methods
  reach the receiver's fields only after \<open>IsEnabled\<close> has answered true. On a nil receiver
  they enqueue nothing; the methods that build or take an error still return it.
\<close>

theorem emission_methods_nil_receiver_noop:
  "IsEnabled None k = False \<and>
   HasListener None k = False \<and>
   OnEvent now None k st = None \<and>
   Infof now1 now2 None format args = None \<and>
   Debugf now1 now2 None format args = None \<and>
   Warningf Sprintf now1 now2 None format args = (Some (GoError (Sprintf format args)), None) \<and>
   Warning Sprintf now1 now2 None err = (err, None) \<and>
   WarningWithReq Sprintf now1 now2 None err req = (err, None) \<and>
   Errorf Sprintf now1 now2 None format args = (Some (GoError (Sprintf format args)), None) \<and>
   Error Sprintf now1 now2 None err = (err, None) \<and>
   ErrorWithReq Sprintf now1 now2 None err req = (err, None) \<and>
   Fatalf Sprintf now1 now2 None format args = (Some (GoError (Sprintf format args)), None) \<and>
   Fatal Sprintf now1 now2 None err = (err, None) \<and>
   FatalWithReq Sprintf now1 now2 None err req = (err, None)"
  by (simp add: emit_defs IsEnabled_def HasListener_def fmt_Errorf_def split: option.splits)

text \<open>
  Claim C3 fails for the methods that configure or shut down the agent. \<open>EnableEvent\<close>,
  \<open>DisableEvent\<close>, \<open>SetVerbosity\<close>, \<open>AddEventListener\<close>, \<open>RemoveListeners\<close>, \<open>Close\<close> and
  \<open>Drain\<close> read or write a field of the receiver without a test: on a nil receiver each
  of them panics with a nil pointer dereference.
\<close>

theorem configuration_methods_panic_on_nil_receiver:
  "EnableEvent (None :: nat Agent option) EventInfo = Inl NilPointerDereference \<and>
   DisableEvent (None :: nat Agent option) EventInfo = Inl NilPointerDereference \<and>
   SetVerbosity (None :: nat Agent option) (Some NewEventFlagSetNone) = Inl NilPointerDereference \<and>
   AddEventListener (None :: nat Agent option) EventInfo (\<lambda>w ts k st. Inr []) =
     Inl NilPointerDereference \<and>
   RemoveListeners (None :: nat Agent option) EventInfo = Inl NilPointerDereference \<and>
   Close (\<lambda>q. (None, q)) (None :: nat Agent option) = Inl NilPointerDereference \<and>
   Drain (\<lambda>a. a) (\<lambda>q. (None, q)) (None :: nat Agent option) = Some (Inl NilPointerDereference)"
  by (simp add: EnableEvent_def DisableEvent_def SetVerbosity_def AddEventListener_def
        RemoveListeners_def Close_def Drain_def)

subsection \<open>Locking\<close>

text \<open>
  \<^bold>\<open>Claim C4\<close> says that every change of the listener registry and every read of a
  kind's slice at dispatch happens while the registry lock is held. \<open>AddEventListener\<close>
  and \<open>triggerListeners\<close> do hold the lock around their map operations.
  \<open>RemoveListeners\<close> deletes the kind's entry without taking the lock.
\<close>

theorem RemoveListeners_not_under_lock:
  "\<not> underLock False (RemoveListeners_ops k) \<and>
   underLock False (AddEventListener_ops k) \<and>
   underLock False (triggerListeners_ops k)"
  by (simp add: RemoveListeners_ops_def AddEventListener_ops_def triggerListeners_ops_def)

subsection \<open>Errors passed and returned\<close>

text \<open>
  \<^bold>\<open>Claim C5\<close>: for every agent, a nil receiver included, \<open>Warning\<close>, \<open>WarningWithReq\<close>,
  \<open>Error\<close>, \<open>ErrorWithReq\<close>, \<open>Fatal\<close> and \<open>FatalWithReq\<close> called with a nil error return
  nil and leave the agent as it was: no write task and no trigger task is enqueued.
\<close>

theorem nil_error_is_noop:
  "Warning Sprintf now1 now2 da None = (None, da) \<and>
   WarningWithReq Sprintf now1 now2 da None req = (None, da) \<and>
   Error Sprintf now1 now2 da None = (None, da) \<and>
   ErrorWithReq Sprintf now1 now2 da None req = (None, da) \<and>
   Fatal Sprintf now1 now2 da None = (None, da) \<and>
   FatalWithReq Sprintf now1 now2 da None req = (None, da)"
  by (simp add: Warning_def WarningWithReq_def Error_def ErrorWithReq_def Fatal_def FatalWithReq_def)

text \<open>
  \<^bold>\<open>Claim C6\<close>: for every format string and argument list, \<open>Warningf\<close>, \<open>Errorf\<close> and
  \<open>Fatalf\<close> return a non-nil error whose message is the arguments formatted into the
  format string, whatever the agent is, so whether or not the kind is enabled and
  whether or not a listener is registered. \<open>Warning\<close>, \<open>Error\<close> and \<open>Fatal\<close>, and their
  variants with a request, return the error they were given.
\<close>

theorem error_is_returned:
  "fst (Warningf Sprintf now1 now2 da format args) = Some (GoError (Sprintf format args)) \<and>
   fst (Errorf Sprintf now1 now2 da format args) = Some (GoError (Sprintf format args)) \<and>
   fst (Fatalf Sprintf now1 now2 da format args) = Some (GoError (Sprintf format args)) \<and>
   fst (Warning Sprintf now1 now2 da err) = err \<and>
   fst (Error Sprintf now1 now2 da err) = err \<and>
   fst (Fatal Sprintf now1 now2 da err) = err \<and>
   fst (WarningWithReq Sprintf now1 now2 da err req) = err \<and>
   fst (ErrorWithReq Sprintf now1 now2 da err req) = err \<and>
   fst (FatalWithReq Sprintf now1 now2 da err req) = err"
  by (simp add: emit_defs fmt_Errorf_def Let_def split: option.splits)

subsection \<open>The generic event\<close>

text \<open>
  \<^bold>\<open>Claim C7\<close>: when the kind is enabled and has at least one listener, \<open>OnEvent\<close>
  appends exactly one task to the queue, a trigger task whose argument zero is the
  clock reading, whose argument one is the kind and whose further arguments are the
  state values; otherwise the agent is left as it was.
\<close>

theorem OnEvent_enqueues_one_trigger:
  "OnEvent now da k st =
     (if IsEnabled da k \<and> HasListener da k then
        map_option (\<lambda>a. a\<lparr>eventQueue := eventQueue a @
           [\<lparr>Action = da_triggerListeners, Args = ATimeSource now # AEventFlag k # st\<rparr>]\<rparr>) da
      else da)"
  by (cases da) (simp_all add: OnEvent_def Enqueue_def IsEnabled_def HasListener_def)

text \<open>
  \<^bold>\<open>Claim C8\<close>: let the kind \<open>k\<close> be enabled and have listeners when \<open>OnEvent\<close> is called
  with the state \<open>st\<close> at the clock reading \<open>now\<close>. The task that \<open>OnEvent\<close> enqueues,
  run on the agent \<open>b\<close> as it is at that later time, with \<open>ls\<close> the listeners of \<open>k\<close>
  then, none of which panics, returns nil and has the effects of the listeners of \<open>ls\<close>,
  each called once, in the order of \<open>ls\<close>, with the writer of the agent, the clock
  reading \<open>now\<close> taken at the enqueue, the kind \<open>k\<close> and the state \<open>st\<close> unchanged.
  \<open>AddEventListener_appends\<close> shows that the order of \<open>ls\<close> is the order of registration.
\<close>

theorem OnEvent_task_calls_each_listener_in_order:
  assumes "IsEnabled (Some a) k" and "HasListener (Some a) k"
    and "listenersFor b k = ls"
    and "\<forall>l \<in> set ls. \<exists>es. l (writer b) now k st = Inr es"
  shows "OnEvent now (Some a) k st =
       Some (a\<lparr>eventQueue := eventQueue a @
         [\<lparr>Action = da_triggerListeners, Args = ATimeSource now # AEventFlag k # st\<rparr>]\<rparr>) \<and>
     triggerListeners b (ATimeSource now # AEventFlag k # st) =
       Inr (None, concat (map (\<lambda>l. projr (l (writer b) now k st)) ls))"
proof -
  have "OnEvent now (Some a) k st =
       Some (a\<lparr>eventQueue := eventQueue a @
         [\<lparr>Action = da_triggerListeners, Args = ATimeSource now # AEventFlag k # st\<rparr>]\<rparr>)"
    using assms(1,2) by (simp add: OnEvent_def Enqueue_def)
  moreover have "triggerListeners b (ATimeSource now # AEventFlag k # st) =
       Inr (None, concat (map (\<lambda>l. projr (l (writer b) now k st)) ls))"
    using assms(3) callListeners_no_panic [OF assms(4)] by (simp add: triggerListeners_decodes)
  ultimately show ?thesis by blast
qed

text \<open>
  An agent with two listeners for the request kind, each recording its number and what
  it was called with: the task enqueued by \<open>OnEvent\<close> runs the first, then the second.
\<close>

theorem OnEvent_task_calls_each_listener_in_order_witness:
  "OnEvent (TimeInstance 5)
     (Some \<lparr>writer = LogWriter 1, events = Some {EventRequest},
            eventListeners = Some [EventRequest \<mapsto>
              [\<lambda>w ts k st. Inr [(1::nat, w, ts, k, st)], \<lambda>w ts k st. Inr [(2::nat, w, ts, k, st)]]],
            eventQueue = []\<rparr>)
     EventRequest [ARequest (Some (HttpRequest 9)), AnInt 200] =
   Some \<lparr>writer = LogWriter 1, events = Some {EventRequest},
            eventListeners = Some [EventRequest \<mapsto>
              [\<lambda>w ts k st. Inr [(1::nat, w, ts, k, st)], \<lambda>w ts k st. Inr [(2::nat, w, ts, k, st)]]],
            eventQueue = [\<lparr>Action = da_triggerListeners,
              Args = [ATimeSource (TimeInstance 5), AEventFlag EventRequest,
                      ARequest (Some (HttpRequest 9)), AnInt 200]\<rparr>]\<rparr> \<and>
   triggerListeners
     \<lparr>writer = LogWriter 1, events = Some {EventRequest},
            eventListeners = Some [EventRequest \<mapsto>
              [\<lambda>w ts k st. Inr [(1::nat, w, ts, k, st)], \<lambda>w ts k st. Inr [(2::nat, w, ts, k, st)]]],
            eventQueue = []\<rparr>
     [ATimeSource (TimeInstance 5), AEventFlag EventRequest, ARequest (Some (HttpRequest 9)), AnInt 200] =
   Inr (None,
     [(1, LogWriter 1, TimeInstance 5, EventRequest, [ARequest (Some (HttpRequest 9)), AnInt 200]),
      (2, LogWriter 1, TimeInstance 5, EventRequest, [ARequest (Some (HttpRequest 9)), AnInt 200])])"
proof -
  let ?l1 = "\<lambda>(w::Logger) (ts::TimeSource) (k::EventFlag) (st::iface list).
     Inr [(1::nat, w, ts, k, st)] :: gopanic + (nat \<times> Logger \<times> TimeSource \<times> EventFlag \<times> iface list) list"
  let ?l2 = "\<lambda>(w::Logger) (ts::TimeSource) (k::EventFlag) (st::iface list).
     Inr [(2::nat, w, ts, k, st)] :: gopanic + (nat \<times> Logger \<times> TimeSource \<times> EventFlag \<times> iface list) list"
  let ?a = "\<lparr>writer = LogWriter 1, events = Some {EventRequest},
            eventListeners = Some [EventRequest \<mapsto> [?l1, ?l2]], eventQueue = []\<rparr>"
  let ?st = "[ARequest (Some (HttpRequest 9)), AnInt 200]"
  have h1: "IsEnabled (Some ?a) EventRequest"
    by (simp add: IsEnabled_def EventFlagSet_IsEnabled_def)
  have h2: "HasListener (Some ?a) EventRequest"
    by (simp add: HasListener_def)
  have h3: "listenersFor ?a EventRequest = [?l1, ?l2]"
    by (simp add: listenersFor_def)
  have h4: "\<forall>l \<in> set [?l1, ?l2]. \<exists>es. l (writer ?a) (TimeInstance 5) EventRequest ?st = Inr es"
    by simp
  from OnEvent_task_calls_each_listener_in_order [OF h1 h2 h3 h4] show ?thesis
    by simp
qed

subsection \<open>The empty format\<close>

text \<open>
  \<^bold>\<open>Claim C10\<close>: \<open>Infof\<close>, \<open>Debugf\<close>, \<open>Warningf\<close>, \<open>Errorf\<close> and \<open>Fatalf\<close> called with the
  empty format string enqueue no write task, whatever the agent is: the write tasks
  pending afterwards are those pending before.
\<close>

theorem empty_format_enqueues_no_write:
  "filter isWriteTask (pending (Infof now1 now2 da [] args)) = filter isWriteTask (pending da) \<and>
   filter isWriteTask (pending (Debugf now1 now2 da [] args)) = filter isWriteTask (pending da) \<and>
   filter isWriteTask (pending (snd (Warningf Sprintf now1 now2 da [] args))) =
     filter isWriteTask (pending da) \<and>
   filter isWriteTask (pending (snd (Errorf Sprintf now1 now2 da [] args))) =
     filter isWriteTask (pending da) \<and>
   filter isWriteTask (pending (snd (Fatalf Sprintf now1 now2 da [] args))) =
     filter isWriteTask (pending da)"
  by (cases da)
     (simp_all add: emit_defs pending_def isWriteTask_def queueWrite_def queueWriteError_def
        Enqueue_def Let_def)

subsection \<open>Draining\<close>

text \<open>
  \<open>Drain\<close> first sets the flag set to "none". From then on no kind is enabled, and no
  emission method enqueues anything.
\<close>

lemma IsEnabled_after_SetVerbosity_none:
  "SetVerbosity da (Some NewEventFlagSetNone) = Inr a \<Longrightarrow> IsEnabled (Some a) k = False"
  by (auto simp: SetVerbosity_def NewEventFlagSetNone_def IsEnabled_def EventFlagSet_IsEnabled_def
        split: option.splits)

lemma no_emission_when_disabled:
  assumes "\<And>k. IsEnabled da k = False"
  shows "OnEvent now da k st = da"
    and "Infof now1 now2 da format args = da"
    and "Debugf now1 now2 da format args = da"
    and "snd (Warningf Sprintf now1 now2 da format args) = da"
    and "snd (Warning Sprintf now1 now2 da err) = da"
    and "snd (WarningWithReq Sprintf now1 now2 da err req) = da"
    and "snd (Errorf Sprintf now1 now2 da format args) = da"
    and "snd (Error Sprintf now1 now2 da err) = da"
    and "snd (ErrorWithReq Sprintf now1 now2 da err req) = da"
    and "snd (Fatalf Sprintf now1 now2 da format args) = da"
    and "snd (Fatal Sprintf now1 now2 da err) = da"
    and "snd (FatalWithReq Sprintf now1 now2 da err req) = da"
  using assms by (cases da; cases err; simp add: emit_defs Let_def)+

text \<open>When the wait of \<open>Drain\<close> ends, the queue it hands to \<open>Close\<close> is empty.\<close>

lemma Drain_wait_returns_on_empty_queue:
  assumes "Drain_wait sleep a = Some a'"
  shows "Len (eventQueue a') = 0"
proof (rule Drain_wait.raw_induct [where P = "\<lambda>s a a'. Len (eventQueue a') = 0", OF _ assms])
  fix f s b y
  assume "\<And>a b y. f a b = Some y \<Longrightarrow> Len (eventQueue y) = 0"
    and "(if 0 < Len (eventQueue b) then f s (s b) else Some b) = Some y"
  then show "Len (eventQueue y) = 0"
    by (cases "0 < Len (eventQueue b)") auto
qed

end
